theory Spec2Isabelle
  imports Complex_Main "HOL-Library.Multiset"
begin

section \<open>JavaScript numbers\<close>

text \<open>
  The program is JavaScript; its numbers are IEEE-754 doubles.  A finite double is
  modelled by the real number it denotes: rounding, overflow and the sign of zero are
  not modelled (every zero is \<open>+0\<close>).  The three special values are kept, with the
  rules JavaScript gives them, because the program can create them from finite
  operands: by dividing by zero, by \<open>Math.log\<close> of a number that is not positive and by
  \<open>Math.sqrt\<close> of a negative number.
\<close>

datatype jsnum = Fin real | PosInf | NegInf | NaN

fun js_neg :: "jsnum \<Rightarrow> jsnum" where
  "js_neg (Fin a) = Fin (- a)"
| "js_neg PosInf = NegInf"
| "js_neg NegInf = PosInf"
| "js_neg NaN = NaN"

fun js_add :: "jsnum \<Rightarrow> jsnum \<Rightarrow> jsnum" where
  "js_add NaN y = NaN"
| "js_add x NaN = NaN"
| "js_add (Fin a) (Fin b) = Fin (a + b)"
| "js_add PosInf NegInf = NaN"
| "js_add NegInf PosInf = NaN"
| "js_add PosInf y = PosInf"
| "js_add x PosInf = PosInf"
| "js_add NegInf y = NegInf"
| "js_add x NegInf = NegInf"

definition js_sub :: "jsnum \<Rightarrow> jsnum \<Rightarrow> jsnum" where
  "js_sub x y = js_add x (js_neg y)"

text \<open>The infinity with the sign of \<open>a\<close>; \<open>NaN\<close> when \<open>a\<close> is zero.\<close>

definition signed_inf :: "real \<Rightarrow> jsnum" where
  "signed_inf a = (if 0 < a then PosInf else if a < 0 then NegInf else NaN)"

fun js_mul :: "jsnum \<Rightarrow> jsnum \<Rightarrow> jsnum" where
  "js_mul NaN y = NaN"
| "js_mul x NaN = NaN"
| "js_mul (Fin a) (Fin b) = Fin (a * b)"
| "js_mul (Fin a) PosInf = signed_inf a"
| "js_mul (Fin a) NegInf = signed_inf (- a)"
| "js_mul PosInf (Fin b) = signed_inf b"
| "js_mul NegInf (Fin b) = signed_inf (- b)"
| "js_mul PosInf PosInf = PosInf"
| "js_mul NegInf NegInf = PosInf"
| "js_mul PosInf NegInf = NegInf"
| "js_mul NegInf PosInf = NegInf"

text \<open>
  Division never throws in JavaScript: a finite number divided by zero is an infinity
  with the sign of the dividend, and \<open>0 / 0\<close> is \<open>NaN\<close>.
\<close>

fun js_div :: "jsnum \<Rightarrow> jsnum \<Rightarrow> jsnum" where
  "js_div NaN y = NaN"
| "js_div x NaN = NaN"
| "js_div (Fin a) (Fin b) = (if b = 0 then signed_inf a else Fin (a / b))"
| "js_div (Fin a) PosInf = Fin 0"
| "js_div (Fin a) NegInf = Fin 0"
| "js_div PosInf (Fin b) = (if b < 0 then NegInf else PosInf)"
| "js_div NegInf (Fin b) = (if b < 0 then PosInf else NegInf)"
| "js_div x y = NaN"

text \<open>\<open>Math.max\<close> of two arguments: \<open>NaN\<close> if either argument is.\<close>

fun js_max :: "jsnum \<Rightarrow> jsnum \<Rightarrow> jsnum" where
  "js_max NaN y = NaN"
| "js_max x NaN = NaN"
| "js_max PosInf y = PosInf"
| "js_max x PosInf = PosInf"
| "js_max NegInf y = y"
| "js_max x NegInf = x"
| "js_max (Fin a) (Fin b) = Fin (max a b)"

text \<open>\<open>Math.log\<close> and \<open>Math.sqrt\<close>.\<close>

fun js_log :: "jsnum \<Rightarrow> jsnum" where
  "js_log (Fin a) = (if 0 < a then Fin (ln a) else if a = 0 then NegInf else NaN)"
| "js_log PosInf = PosInf"
| "js_log NegInf = NaN"
| "js_log NaN = NaN"

fun js_sqrt :: "jsnum \<Rightarrow> jsnum" where
  "js_sqrt (Fin a) = (if 0 \<le> a then Fin (sqrt a) else NaN)"
| "js_sqrt PosInf = PosInf"
| "js_sqrt NegInf = NaN"
| "js_sqrt NaN = NaN"

text \<open>The comparison \<open>x <= y\<close>: false whenever an operand is \<open>NaN\<close>.\<close>

fun js_le :: "jsnum \<Rightarrow> jsnum \<Rightarrow> bool" where
  "js_le NaN y = False"
| "js_le x NaN = False"
| "js_le NegInf y = True"
| "js_le x PosInf = True"
| "js_le (Fin a) (Fin b) = (a \<le> b)"
| "js_le x y = False"

definition is_finite :: "jsnum \<Rightarrow> bool" where
  "is_finite x = (case x of Fin a \<Rightarrow> True | _ \<Rightarrow> False)"

section \<open>The risk percentile estimator\<close>

text \<open>\<open>const BASE_RESPONSE_LATENCY = 16;\<close>\<close>

definition BASE_RESPONSE_LATENCY :: real where
  "BASE_RESPONSE_LATENCY = 16"

text \<open>
  The local variables of \<open>_riskPercentiles\<close> that the \<open>while\<close> loop reads and writes.
  The arguments are finite numbers, and sums, differences and products of finite
  numbers are finite, so these variables are reals; only the quotient computed for a
  result can be a special value.
\<close>

record walk_state =
  completedTime :: real
  duration :: real
  cdfTime :: real
  durationIndex :: int
  remainingCount :: int
  clippedLength :: real

text \<open>An element \<open>{percentile, time}\<close> of the returned array.\<close>

record risk =
  percentile :: real
  time :: jsnum

text \<open>
  The body of the \<open>while\<close> loop.  It runs only under the loop condition
  \<open>durationIndex < durations.length - 1\<close>, and \<open>durationIndex\<close> starts at \<open>-1\<close> and
  only grows, so \<open>durations[durationIndex + 1]\<close> is always read in range.
\<close>

definition walk_step :: "real list \<Rightarrow> walk_state \<Rightarrow> walk_state" where
  "walk_step durations s =
    (let s1 = s\<lparr>completedTime := completedTime s + duration s,
                remainingCount := remainingCount s - (if duration s < 0 then - 1 else 1)\<rparr>;
         s2 = (if clippedLength s1 > 0 \<and>
                  clippedLength s1 < durations ! nat (durationIndex s1 + 1)
               then s1\<lparr>duration := - clippedLength s1, clippedLength := 0\<rparr>
               else s1\<lparr>durationIndex := durationIndex s1 + 1,
                       duration := durations ! nat (durationIndex s1 + 1)\<rparr>)
     in s2\<lparr>cdfTime := completedTime s2 + \<bar>duration s2\<bar> * of_int (remainingCount s2)\<rparr>)"

text \<open>The \<open>while\<close> loop for one percentile, from the state the previous one left.\<close>

function walk :: "real list \<Rightarrow> real \<Rightarrow> walk_state \<Rightarrow> walk_state" where
  "walk durations percentileTime s =
    (if cdfTime s < percentileTime \<and> durationIndex s < int (length durations) - 1
     then walk durations percentileTime (walk_step durations s)
     else s)"
  by pat_completeness auto
termination
  by (relation "measure (\<lambda>(durations, percentileTime, s).
        2 * nat (int (length durations) - 1 - durationIndex s) +
        (if clippedLength s > 0 then 1 else 0))")
     (auto simp: walk_step_def Let_def)

declare walk.simps [simp del]

text \<open>
  \<open>Math.max(0, (percentileTime - completedTime) / remainingCount) + BASE_RESPONSE_LATENCY\<close>
\<close>

definition latency :: "real \<Rightarrow> walk_state \<Rightarrow> jsnum" where
  "latency percentileTime s =
    js_add (js_max (Fin 0)
              (js_div (Fin (percentileTime - completedTime s))
                      (Fin (of_int (remainingCount s)))))
           (Fin BASE_RESPONSE_LATENCY)"

text \<open>The \<open>for (const percentile of percentiles)\<close> loop; \<open>results.push\<close> appends.\<close>

fun percentile_loop :: "real list \<Rightarrow> real \<Rightarrow> walk_state \<Rightarrow> real list \<Rightarrow> risk list" where
  "percentile_loop durations totalTime s [] = []"
| "percentile_loop durations totalTime s (p # percentiles) =
    (let percentileTime = p * totalTime;
         s' = walk durations percentileTime s
     in \<lparr>percentile = p, time = latency percentileTime s'\<rparr>
        # percentile_loop durations totalTime s' percentiles)"

text \<open>The state before the first percentile.\<close>

definition initial_state :: "real list \<Rightarrow> real \<Rightarrow> real \<Rightarrow> walk_state" where
  "initial_state durations totalTime clipped =
    (let busyTime = sum_list durations - clipped;
         completed = totalTime - busyTime
     in \<lparr>completedTime = completed,
         duration = 0,
         cdfTime = completed,
         durationIndex = - 1,
         remainingCount = int (length durations) + 1 - (if clipped > 0 then 1 else 0),
         clippedLength = clipped\<rparr>)"

text \<open>
  \<open>_riskPercentiles(durations, totalTime, percentiles, clippedLength)\<close>.  The last
  argument is optional: \<open>clippedLength = clippedLength || 0\<close>.
\<close>

definition riskPercentiles ::
  "real list \<Rightarrow> real \<Rightarrow> real list \<Rightarrow> real option \<Rightarrow> risk list" where
  "riskPercentiles durations totalTime percentiles clippedLength_arg =
    (let clipped = (case clippedLength_arg of None \<Rightarrow> 0 | Some c \<Rightarrow> c)
     in percentile_loop durations totalTime
          (initial_state durations totalTime clipped) percentiles)"

section \<open>The window sampler\<close>

text \<open>
  A trace event, with the fields \<open>getRiskToResponsiveness\<close> reads.  \<open>ts\<close> and \<open>dur\<close> are
  in microseconds; \<open>dur\<close> may be absent.
\<close>

record trace_event =
  name :: string
  pid :: int
  tid :: int
  ts :: real
  dur :: "real option"

text \<open>
  \<open>const eventStart = (event.ts - tsBase) / 1000;\<close>
  \<open>const eventDuration = (event.dur || 0) / 1000;\<close>
  \<open>const eventEnd = eventStart + eventDuration;\<close>
\<close>

definition eventStart :: "real \<Rightarrow> trace_event \<Rightarrow> real" where
  "eventStart tsBase event = (ts event - tsBase) / 1000"

definition eventDuration :: "trace_event \<Rightarrow> real" where
  "eventDuration event = (case dur event of None \<Rightarrow> 0 | Some d \<Rightarrow> d) / 1000"

definition eventEnd :: "real \<Rightarrow> trace_event \<Rightarrow> real" where
  "eventEnd tsBase event = eventStart tsBase event + eventDuration event"

text \<open>
  The callback of \<open>topLevelTasks.forEach\<close>.  It writes two variables of the enclosing
  function, the array \<open>durations\<close> and the number \<open>clippedLength\<close>; the model passes them
  as a pair and returns the pair after the callback.
\<close>

definition sample_task ::
  "real \<Rightarrow> real \<Rightarrow> real \<Rightarrow> real list \<times> real \<Rightarrow> trace_event \<Rightarrow> real list \<times> real" where
  "sample_task startTime endTime tsBase acc event =
    (if eventEnd tsBase event \<le> startTime \<or> eventStart tsBase event \<ge> endTime then acc
     else
       let adjEventStart =
             (if eventStart tsBase event < startTime then startTime
              else eventStart tsBase event);
           dura =
             (if eventStart tsBase event < startTime then eventEnd tsBase event - adjEventStart
              else eventDuration event);
           clipped =
             (if eventEnd tsBase event > endTime then dura - (endTime - adjEventStart)
              else snd acc)
       in (fst acc @ [dura], clipped))"

text \<open>The whole \<open>forEach\<close>, from \<open>durations = []\<close> and \<open>clippedLength = 0\<close>.\<close>

definition sample_window ::
  "real \<Rightarrow> real \<Rightarrow> real \<Rightarrow> trace_event list \<Rightarrow> real list \<times> real" where
  "sample_window startTime endTime tsBase topLevelTasks =
     foldl (sample_task startTime endTime tsBase) ([], 0) topLevelTasks"

text \<open>
  Reading a property of \<open>undefined\<close> throws a \<open>TypeError\<close>: \<open>events[0].ts\<close> when no event
  has a non-zero timestamp, and \<open>startEvent.pid\<close> when no event is named
  \<open>TracingStartedInPage\<close>.  The function has no other way to fail.
\<close>

datatype error = TypeError

text \<open>
  \<open>Array.prototype.sort\<close> sorts the array it is called on, in place, and the function
  calls it on \<open>trace.traceEvents\<close> and on the caller's \<open>percentiles\<close>.  The outcome of a
  call is therefore the content of these two arrays after the call, together with the
  returned value or the error thrown.
\<close>

record outcome =
  traceEvents_after :: "trace_event list"
  percentiles_after :: "real list option"
  returned :: "error + risk list"

definition default_percentiles :: "real list" where
  "default_percentiles = [0.5, 0.75, 0.9, 0.99, 1]"

text \<open>
  \<open>getRiskToResponsiveness(trace, startTime, endTime, percentiles)\<close>; the first argument
  is \<open>trace.traceEvents\<close>, the other three are optional.  The sort is the stable sort of
  the language standard, with the comparators \<open>a.ts - b.ts\<close> and \<open>a - b\<close>.
\<close>

definition getRiskToResponsiveness ::
  "trace_event list \<Rightarrow> real option \<Rightarrow> real option \<Rightarrow> real list option \<Rightarrow> outcome" where
  "getRiskToResponsiveness traceEvents startTime_arg endTime_arg percentiles_arg =
    (let sortedEvents = sort_key ts traceEvents;
         events = filter (\<lambda>e. ts e \<noteq> 0) sortedEvents
     in if events = [] then
          \<lparr>traceEvents_after = sortedEvents, percentiles_after = percentiles_arg,
           returned = Inl TypeError\<rparr>
        else
          let tsBase = ts (hd events);
              lastEvent = last events;
              startTime = (case startTime_arg of None \<Rightarrow> 0 | Some t \<Rightarrow> t);
              endTime = (case endTime_arg of
                           None \<Rightarrow> (ts lastEvent - tsBase) / 1000 | Some t \<Rightarrow> t);
              totalTime = endTime - startTime;
              percentiles = (case percentiles_arg of
                               Some ps \<Rightarrow> sort ps | None \<Rightarrow> default_percentiles)
          in case find (\<lambda>event. name event = ''TracingStartedInPage'') sortedEvents of
               None \<Rightarrow>
                 \<lparr>traceEvents_after = sortedEvents,
                  percentiles_after = map_option sort percentiles_arg,
                  returned = Inl TypeError\<rparr>
             | Some startEvent \<Rightarrow>
                 let topLevelTasks =
                       filter (\<lambda>evt. pid evt = pid startEvent \<and> tid evt = tid startEvent \<and>
                                      name evt = ''MessageLoop::RunTask'') sortedEvents;
                     sampled = sample_window startTime endTime tsBase topLevelTasks
                 in \<lparr>traceEvents_after = sortedEvents,
                     percentiles_after = map_option sort percentiles_arg,
                     returned = Inr (riskPercentiles (sort (fst sampled)) totalTime
                                       percentiles (Some (snd sampled)))\<rparr>)"

section \<open>The log-normal fit\<close>

text \<open>The parameters \<open>{location, shape}\<close> of a log-normal distribution.\<close>

record log_normal =
  location :: jsnum
  shape :: jsnum

text \<open>
  Modelled from the spec: the constructor \<open>traceviewer.b.Statistics.LogNormalDistribution\<close>
  belongs to the bundled trace viewer and is not among the sources; the spec gives the
  fitted distribution as the pair \<open>{location, shape}\<close>, so the constructor stores its two
  arguments.
\<close>

definition LogNormalDistribution :: "jsnum \<Rightarrow> jsnum \<Rightarrow> log_normal" where
  "LogNormalDistribution loc shp = \<lparr>location = loc, shape = shp\<rparr>"

text \<open>
  \<open>getLogNormalDistribution(median, falloff)\<close>.  The function has no \<open>throw\<close> and no
  test of its arguments, and neither \<open>Math.log\<close>, \<open>Math.sqrt\<close> nor the arithmetic
  operators throw.
\<close>

definition getLogNormalDistribution :: "jsnum \<Rightarrow> jsnum \<Rightarrow> log_normal" where
  "getLogNormalDistribution median falloff =
    (let loc = js_log median;
         logRatio = js_log (js_div falloff median);
         shp = js_mul (Fin 0.5)
                 (js_sqrt (js_sub (js_sub (Fin 1) (js_mul (Fin 3) logRatio))
                    (js_sqrt (js_sub (js_mul (js_sub logRatio (Fin 3))
                                             (js_sub logRatio (Fin 3)))
                                     (Fin 8)))))
     in LogNormalDistribution loc shp)"

section \<open>Properties of the percentile loop\<close>

lemma percentile_loop_percentile:
  "map percentile (percentile_loop ds T s ps) = ps"
  by (induction ps arbitrary: s) (simp_all add: Let_def)

lemma percentile_le_total: "0 \<le> (T::real) \<Longrightarrow> p \<le> 1 \<Longrightarrow> p * T \<le> T"
  using mult_right_mono [of p 1 T] by simp

lemma walk_empty: "- 1 \<le> durationIndex s \<Longrightarrow> walk [] pt s = s"
  by (subst walk.simps) simp

text \<open>
  Whatever the state, the time computed for a percentile is \<open>NaN\<close> or at least the base
  latency: \<open>Math.max(0, q)\<close> is \<open>NaN\<close> when \<open>q\<close> is, and otherwise not below zero.
\<close>

lemma latency_nan_or_base:
  "latency pt s = NaN \<or> js_le (Fin 16) (latency pt s)"
proof (cases "remainingCount s = 0")
  case True
  then show ?thesis
    by (simp add: latency_def signed_inf_def BASE_RESPONSE_LATENCY_def)
next
  case False
  then show ?thesis
    by (simp add: latency_def BASE_RESPONSE_LATENCY_def)
qed

lemma percentile_loop_nan_or_base:
  "\<forall>r\<in>set (percentile_loop ds T s ps). time r = NaN \<or> js_le (Fin 16) (time r)"
proof (induction ps arbitrary: s)
  case Nil
  then show ?case by simp
next
  case (Cons p ps)
  from Cons [of "walk ds (p * T) s"] latency_nan_or_base [of "p * T" "walk ds (p * T) s"]
  show ?case by (simp add: Let_def)
qed

section \<open>Properties of the window sampler\<close>

lemma sample_task_skip:
  assumes "\<not> (startTime < eventEnd tsBase event \<and> eventStart tsBase event < endTime \<and>
              endTime < eventEnd tsBase event)"
  shows "snd (sample_task startTime endTime tsBase acc event) = snd acc"
  using assms by (auto simp: sample_task_def Let_def)

lemma sample_task_clip:
  assumes "startTime < eventEnd tsBase event" and "eventStart tsBase event < endTime"
    and "endTime < eventEnd tsBase event"
  shows "snd (sample_task startTime endTime tsBase acc event) = eventEnd tsBase event - endTime"
  using assms by (auto simp: sample_task_def Let_def eventEnd_def)

lemma foldl_sample_task_skip:
  assumes "\<forall>x\<in>set xs. \<not> (startTime < eventEnd tsBase x \<and> eventStart tsBase x < endTime \<and>
              endTime < eventEnd tsBase x)"
  shows "snd (foldl (sample_task startTime endTime tsBase) acc xs) = snd acc"
  using assms by (induction xs arbitrary: acc) (simp_all add: sample_task_skip)

text \<open>
  The three ways a call of \<open>getRiskToResponsiveness\<close> can go.  When it returns, the
  durations, the window length and the clipped length handed to \<open>_riskPercentiles\<close> do
  not depend on the percentiles argument.
\<close>

lemma traceEvents_after_eq:
  "traceEvents_after (getRiskToResponsiveness tr st et ps) = sort_key ts tr"
  by (simp add: getRiskToResponsiveness_def Let_def split: option.splits)

lemma getRiskToResponsiveness_cases:
  obtains (no_events) "filter (\<lambda>e. ts e \<noteq> 0) (sort_key ts tr) = []"
      "percentiles_after (getRiskToResponsiveness tr st et ps) = ps"
      "returned (getRiskToResponsiveness tr st et ps) = Inl TypeError"
  | (no_marker) "filter (\<lambda>e. ts e \<noteq> 0) (sort_key ts tr) \<noteq> []"
      "find (\<lambda>event. name event = ''TracingStartedInPage'') (sort_key ts tr) = None"
      "percentiles_after (getRiskToResponsiveness tr st et ps) = map_option sort ps"
      "returned (getRiskToResponsiveness tr st et ps) = Inl TypeError"
  | (ok) durs total clipped where
      "filter (\<lambda>e. ts e \<noteq> 0) (sort_key ts tr) \<noteq> []"
      "find (\<lambda>event. name event = ''TracingStartedInPage'') (sort_key ts tr) \<noteq> None"
      "percentiles_after (getRiskToResponsiveness tr st et ps) = map_option sort ps"
      "\<And>qs. returned (getRiskToResponsiveness tr st et qs) =
         Inr (riskPercentiles durs total
                (case qs of Some ps \<Rightarrow> sort ps | None \<Rightarrow> default_percentiles) clipped)"
proof (cases "filter (\<lambda>e. ts e \<noteq> 0) (sort_key ts tr) = []")
  case True
  then show ?thesis
    by (intro no_events) (simp_all add: getRiskToResponsiveness_def Let_def)
next
  case False
  show ?thesis
  proof (cases "find (\<lambda>event. name event = ''TracingStartedInPage'') (sort_key ts tr)")
    case None
    with False show ?thesis
      by (intro no_marker) (simp_all add: getRiskToResponsiveness_def Let_def)
  next
    case (Some startEvent)
    with False show ?thesis
      by (intro ok) (simp_all add: getRiskToResponsiveness_def Let_def)
  qed
qed

lemma returned_Inr:
  assumes "returned (getRiskToResponsiveness tr st et ps) = Inr rs"
  shows "percentiles_after (getRiskToResponsiveness tr st et ps) = map_option sort ps \<and>
         map percentile rs = (case ps of None \<Rightarrow> default_percentiles | Some qs \<Rightarrow> sort qs)"
proof (cases rule: getRiskToResponsiveness_cases [of tr st et ps])
  case no_events
  with assms show ?thesis by simp
next
  case no_marker
  with assms show ?thesis by simp
next
  case (ok durs total clipped)
  from ok(4) [of ps] assms ok(3) show ?thesis
    by (auto simp: riskPercentiles_def percentile_loop_percentile split: option.splits)
qed

lemma percentiles_after_cases:
  "percentiles_after (getRiskToResponsiveness tr st et ps) = ps \<or>
   percentiles_after (getRiskToResponsiveness tr st et ps) = map_option sort ps"
  by (cases rule: getRiskToResponsiveness_cases [of tr st et ps]) simp_all

lemma returned_ok:
  assumes "\<exists>e\<in>set tr. ts e \<noteq> 0" and "\<exists>e\<in>set tr. name e = ''TracingStartedInPage''"
  shows "\<exists>rs. returned (getRiskToResponsiveness tr st et ps) = Inr rs"
proof (cases rule: getRiskToResponsiveness_cases [of tr st et ps])
  case no_events
  with assms(1) show ?thesis by (simp add: filter_empty_conv)
next
  case no_marker
  with assms(2) show ?thesis by (auto simp: find_None_iff)
next
  case (ok durs total clipped)
  then show ?thesis by simp
qed

lemma returned_cong:
  assumes "(case ps of Some qs \<Rightarrow> sort qs | None \<Rightarrow> default_percentiles) =
           (case ps' of Some qs \<Rightarrow> sort qs | None \<Rightarrow> default_percentiles)"
  shows "returned (getRiskToResponsiveness tr st et ps) =
         returned (getRiskToResponsiveness tr st et ps')"
proof (cases rule: getRiskToResponsiveness_cases [of tr st et ps])
  case no_events
  then show ?thesis by (simp add: getRiskToResponsiveness_def Let_def)
next
  case no_marker
  then show ?thesis by (simp add: getRiskToResponsiveness_def Let_def)
next
  case (ok durs total clipped)
  from ok(4) [of ps] ok(4) [of ps'] assms show ?thesis by simp
qed

section \<open>Properties of the log-normal fit\<close>

text \<open>
  Two facts about real numbers, used for the call with the median 100 and the falloff
  50, where \<open>l\<close> is \<open>ln (1 / 2)\<close>, far from the boundary of either radicand: for
  \<open>l \<le> 0\<close> the inner radicand \<open>(l - 3)\<^sup>2 - 8\<close> is at least 1, and the outer radicand
  \<open>1 - 3 l - sqrt ((l - 3)\<^sup>2 - 8)\<close> is not negative, since
  \<open>(1 - 3 l)\<^sup>2 - ((l - 3)\<^sup>2 - 8) = 8 l\<^sup>2\<close>.
\<close>

lemma inner_radicand_pos:
  assumes "(l::real) \<le> 0"
  shows "1 \<le> (l - 3) * (l - 3) - 8"
proof -
  from assms have "0 \<le> - l * (6 - l)" by (intro mult_nonneg_nonneg) simp_all
  then show ?thesis by (simp add: algebra_simps)
qed

lemma outer_radicand_nonneg:
  assumes "(l::real) \<le> 0"
  shows "0 \<le> 1 - 3 * l - sqrt ((l - 3) * (l - 3) - 8)"
proof -
  have "(l - 3) * (l - 3) - 8 \<le> (1 - 3 * l)\<^sup>2"
    by (simp add: power2_eq_square algebra_simps)
  moreover from assms have "0 \<le> 1 - 3 * l" by simp
  ultimately have "sqrt ((l - 3) * (l - 3) - 8) \<le> 1 - 3 * l"
    by (rule real_le_lsqrt [rotated])
  then show ?thesis by simp
qed

lemma getLogNormalDistribution_pos:
  assumes "0 < median" and "0 < falloff"
  shows "getLogNormalDistribution (Fin median) (Fin falloff) =
     \<lparr>location = Fin (ln median),
      shape = js_mul (Fin 0.5) (js_sqrt (js_sub (Fin (1 - 3 * ln (falloff / median)))
        (js_sqrt (Fin ((ln (falloff / median) - 3) * (ln (falloff / median) - 3) - 8)))))\<rparr>"
  using assms
  by (simp add: getLogNormalDistribution_def LogNormalDistribution_def Let_def js_sub_def)

lemma ln3_bounds: "2 / 3 \<le> ln (3::real) \<and> ln (3::real) \<le> 2"
proof
  have "ln (1 / 3 :: real) \<le> 1 / 3 - 1" by (rule ln_le_minus_one) simp
  moreover have "ln (1 / 3 :: real) = - ln 3" by (simp add: ln_div)
  ultimately show "2 / 3 \<le> ln (3::real)" by simp
  have "ln (3::real) \<le> 3 - 1" by (rule ln_le_minus_one) simp
  then show "ln (3::real) \<le> 2" by simp
qed

lemma ln3_radicand: "(ln (3::real) - 3) * (ln 3 - 3) < 8"
proof -
  from ln3_bounds have "0 \<le> 3 - ln (3::real)" and "3 - ln (3::real) \<le> 7 / 3" by simp_all
  then have "(3 - ln (3::real)) * (3 - ln 3) \<le> (7 / 3) * (7 / 3)"
    by (intro mult_mono) simp_all
  then show ?thesis by (simp add: algebra_simps)
qed

section \<open>The claims about the risk percentile estimator\<close>

text \<open>
  C1, as amended.  \<open>_riskPercentiles\<close> neither tests \<open>remainingCount\<close> nor throws: it
  divides whatever the divisor is and returns an entry for every percentile.  When
  \<open>remainingCount\<close> is zero at the division, the time it returns is \<open>Infinity\<close> if
  \<open>percentileTime\<close> exceeds \<open>completedTime\<close>, \<open>NaN\<close> if the two are equal, and 16
  otherwise.
\<close>

theorem riskPercentiles_unguarded_division:
  "(remainingCount s = 0 \<longrightarrow>
      latency percentileTime s =
        (if completedTime s < percentileTime then PosInf
         else if percentileTime < completedTime s then Fin 16
         else NaN)) \<and>
   length (riskPercentiles durations totalTime percentiles clipped) = length percentiles"
proof (intro conjI impI)
  assume "remainingCount s = 0"
  then show "latency percentileTime s =
        (if completedTime s < percentileTime then PosInf
         else if percentileTime < completedTime s then Fin 16
         else NaN)"
    by (simp add: latency_def signed_inf_def BASE_RESPONSE_LATENCY_def)
next
  have "map percentile (riskPercentiles durations totalTime percentiles clipped) = percentiles"
    by (simp add: riskPercentiles_def percentile_loop_percentile)
  then have "length (map percentile (riskPercentiles durations totalTime percentiles clipped))
      = length percentiles"
    by simp
  then show "length (riskPercentiles durations totalTime percentiles clipped) =
      length percentiles"
    by simp
qed

text \<open>
  An instance: one wholly clipped 10 ms duration in a 100 ms window; the target 200 of
  the percentile 2 drives the walk to a \<open>remainingCount\<close> of zero.
\<close>

theorem riskPercentiles_unguarded_division_witness:
  "remainingCount (walk [10] 200 (initial_state [10] 100 10)) = 0 \<and>
   completedTime (walk [10] 200 (initial_state [10] 100 10)) = 100 \<and>
   latency 200 (walk [10] 200 (initial_state [10] 100 10)) = PosInf \<and>
   length (riskPercentiles [10] 100 [2] (Some 10)) = 1"
proof -
  have s: "remainingCount (walk [10] 200 (initial_state [10] 100 10)) = 0"
    "completedTime (walk [10] 200 (initial_state [10] 100 10)) = 100"
    by (simp_all add: initial_state_def walk.simps walk_step_def Let_def)
  from s show ?thesis
    using riskPercentiles_unguarded_division
      [of "walk [10] 200 (initial_state [10] 100 10)" 200 "[10]" 100 "[2]" "Some 10"]
    by simp
qed

text \<open>
  The division by zero happens and its result is returned: one 10 ms duration, wholly
  clipped, and the percentile 2 give \<open>Infinity\<close>.
\<close>

theorem riskPercentiles_zero_count_counterexample:
  "remainingCount (walk [10] (2 * 100) (initial_state [10] 100 10)) = 0 \<and>
   riskPercentiles [10] 100 [2] (Some 10) = [\<lparr>percentile = 2, time = PosInf\<rparr>]"
  by (simp add: riskPercentiles_def initial_state_def walk.simps walk_step_def Let_def
      latency_def signed_inf_def)

text \<open>
  C2.  With no durations and no clipped length, in a window of positive length, every
  percentile in \<open>(0, 1]\<close> gets exactly \<open>BASE_RESPONSE_LATENCY\<close>, which is 16.
\<close>

theorem riskPercentiles_idle:
  assumes "0 < totalTime" and "sorted percentiles"
    and "\<forall>p\<in>set percentiles. 0 < p \<and> p \<le> 1"
    and "clipped = None \<or> clipped = Some 0"
  shows "\<forall>r\<in>set (riskPercentiles [] totalTime percentiles clipped).
           time r = Fin BASE_RESPONSE_LATENCY \<and> BASE_RESPONSE_LATENCY = 16"
proof -
  let ?s = "initial_state [] totalTime 0"
  have s: "durationIndex ?s = - 1" "remainingCount ?s = 1" "completedTime ?s = totalTime"
    by (simp_all add: initial_state_def)
  have "\<forall>r\<in>set (percentile_loop [] totalTime ?s ps). time r = Fin BASE_RESPONSE_LATENCY"
    if "\<forall>p\<in>set ps. p \<le> 1" for ps
    using that
  proof (induction ps)
    case Nil
    then show ?case by simp
  next
    case (Cons p ps)
    then have "p * totalTime \<le> totalTime" using assms(1) by (simp add: percentile_le_total)
    then have "latency (p * totalTime) ?s = Fin BASE_RESPONSE_LATENCY"
      by (simp add: latency_def s)
    with Cons show ?case by (simp add: Let_def walk_empty s)
  qed
  moreover have "(case clipped of None \<Rightarrow> 0 | Some c \<Rightarrow> c) = 0"
    using assms(4) by auto
  moreover from assms(3) have "\<forall>p\<in>set percentiles. p \<le> 1" by simp
  ultimately show ?thesis
    by (simp add: riskPercentiles_def BASE_RESPONSE_LATENCY_def)
qed

text \<open>An instance with three percentiles.\<close>

theorem riskPercentiles_idle_witness:
  "(0::real) < 100 \<and> sorted [0.5, 0.9, 1::real] \<and>
   list_all (\<lambda>p. 0 < p \<and> p \<le> 1) [0.5, 0.9, 1::real] \<and>
   map time (riskPercentiles [] 100 [0.5, 0.9, 1] None) = [Fin 16, Fin 16, Fin 16]"
  using riskPercentiles_idle [of 100 "[0.5, 0.9, 1]" None]
  by (simp add: riskPercentiles_def Let_def)

text \<open>
  C4, as amended.  Whatever the input, the result has one entry per requested
  percentile, in the order of the request, and every returned time is either \<open>NaN\<close> or
  at least 16.
\<close>

theorem riskPercentiles_result:
  "map percentile (riskPercentiles durations totalTime percentiles clipped) = percentiles \<and>
   (\<forall>r\<in>set (riskPercentiles durations totalTime percentiles clipped).
      time r = NaN \<or> js_le (Fin 16) (time r))"
proof
  show "map percentile (riskPercentiles durations totalTime percentiles clipped) = percentiles"
    by (simp add: riskPercentiles_def percentile_loop_percentile)
  show "\<forall>r\<in>set (riskPercentiles durations totalTime percentiles clipped).
      time r = NaN \<or> js_le (Fin 16) (time r)"
    unfolding riskPercentiles_def Let_def by (rule percentile_loop_nan_or_base)
qed

text \<open>
  An instance whose percentiles are not ascending: the order is kept, and the three
  times are 19.75, 16 and 26.
\<close>

theorem riskPercentiles_result_witness:
  "map percentile (riskPercentiles [10, 10, 10, 10] 100 [0.75, 0.5, 1] None) = [0.75, 0.5, 1] \<and>
   map time (riskPercentiles [10, 10, 10, 10] 100 [0.75, 0.5, 1] None) =
     [Fin 19.75, Fin 16, Fin 26] \<and>
   list_all (\<lambda>r. time r = NaN \<or> js_le (Fin 16) (time r))
     (riskPercentiles [10, 10, 10, 10] 100 [0.75, 0.5, 1] None)"
proof -
  have "map time (riskPercentiles [10, 10, 10, 10] 100 [0.75, 0.5, 1] None) =
     [Fin 19.75, Fin 16, Fin 26]"
    by (simp add: riskPercentiles_def initial_state_def walk.simps walk_step_def Let_def
        latency_def signed_inf_def BASE_RESPONSE_LATENCY_def)
  then show ?thesis
    using riskPercentiles_result [of "[10, 10, 10, 10]" 100 "[0.75, 0.5, 1]" None]
    by (simp add: list_all_iff)
qed

text \<open>
  A time can be \<open>NaN\<close>, which is not at least 16: with no durations, a clipped length of
  10 and the percentile 2 in a window of 10 ms, the quotient is \<open>0 / 0\<close>.
\<close>

theorem riskPercentiles_result_counterexample:
  "riskPercentiles [] 10 [2] (Some 10) = [\<lparr>percentile = 2, time = NaN\<rparr>] \<and>
   \<not> js_le (Fin 16) NaN"
  by (simp add: riskPercentiles_def initial_state_def walk.simps Let_def latency_def
      signed_inf_def)

section \<open>The claim about the log-normal fit\<close>

text \<open>
  C5, as amended.  \<open>getLogNormalDistribution\<close> tests nothing and fails nowhere: what
  the spec calls a domain error comes back as a value of the returned distribution.  A
  negative median gives the location \<open>NaN\<close> and the median 0 the location \<open>-Infinity\<close>; a
  falloff that is not positive, with a positive median, gives the shape \<open>NaN\<close>; a falloff
  equal to a positive median gives the shape 0.  The median 100 with the falloff 50
  gives finite parameters, and with the falloff 300, where the inner radicand is
  negative, the shape \<open>NaN\<close>.
\<close>

theorem getLogNormalDistribution_unchecked:
  "(median < 0 \<longrightarrow> location (getLogNormalDistribution (Fin median) (Fin falloff)) = NaN) \<and>
   (median = 0 \<longrightarrow> location (getLogNormalDistribution (Fin median) (Fin falloff)) = NegInf) \<and>
   (0 < median \<and> falloff \<le> 0 \<longrightarrow>
      shape (getLogNormalDistribution (Fin median) (Fin falloff)) = NaN) \<and>
   (0 < median \<longrightarrow> shape (getLogNormalDistribution (Fin median) (Fin median)) = Fin 0) \<and>
   is_finite (location (getLogNormalDistribution (Fin 100) (Fin 50))) \<and>
   is_finite (shape (getLogNormalDistribution (Fin 100) (Fin 50))) \<and>
   shape (getLogNormalDistribution (Fin 100) (Fin 300)) = NaN"
proof (intro conjI impI)
  assume "median < 0"
  then show "location (getLogNormalDistribution (Fin median) (Fin falloff)) = NaN"
    by (simp add: getLogNormalDistribution_def LogNormalDistribution_def Let_def)
next
  assume "median = 0"
  then show "location (getLogNormalDistribution (Fin median) (Fin falloff)) = NegInf"
    by (simp add: getLogNormalDistribution_def LogNormalDistribution_def Let_def)
next
  assume a: "0 < median \<and> falloff \<le> 0"
  show "shape (getLogNormalDistribution (Fin median) (Fin falloff)) = NaN"
  proof (cases "falloff = 0")
    case True
    with a show ?thesis
      by (simp add: getLogNormalDistribution_def LogNormalDistribution_def Let_def
          js_sub_def signed_inf_def)
  next
    case False
    with a have "falloff / median < 0" by (simp add: divide_neg_pos)
    with a False show ?thesis
      by (simp add: getLogNormalDistribution_def LogNormalDistribution_def Let_def
          js_sub_def)
  qed
next
  assume "0 < median"
  then show "shape (getLogNormalDistribution (Fin median) (Fin median)) = Fin 0"
    by (simp add: getLogNormalDistribution_def LogNormalDistribution_def Let_def js_sub_def)
next
  have l: "ln (1 / 2 :: real) \<le> 0" by simp
  from inner_radicand_pos [OF l] outer_radicand_nonneg [OF l]
  have p: "getLogNormalDistribution (Fin 100) (Fin 50) =
     \<lparr>location = Fin (ln 100),
      shape = Fin (0.5 * sqrt (1 - 3 * ln (1 / 2) -
                sqrt ((ln (1 / 2) - 3) * (ln (1 / 2) - 3) - 8)))\<rparr>"
    using getLogNormalDistribution_pos [of 100 50] by (simp add: js_sub_def)
  from p show "is_finite (location (getLogNormalDistribution (Fin 100) (Fin 50)))"
    by (simp add: is_finite_def)
  from p show "is_finite (shape (getLogNormalDistribution (Fin 100) (Fin 50)))"
    by (simp add: is_finite_def)
next
  from ln3_radicand show "shape (getLogNormalDistribution (Fin 100) (Fin 300)) = NaN"
    using getLogNormalDistribution_pos [of 100 300] by (simp add: js_sub_def)
qed

text \<open>
  Instances: the median \<open>-1\<close>, the median 0, the median 100 with the falloff \<open>-5\<close>, and the
  median 100 with the falloff 100.
\<close>

theorem getLogNormalDistribution_unchecked_witness:
  "location (getLogNormalDistribution (Fin (- 1)) (Fin 1)) = NaN \<and>
   location (getLogNormalDistribution (Fin 0) (Fin 1)) = NegInf \<and>
   shape (getLogNormalDistribution (Fin 100) (Fin (- 5))) = NaN \<and>
   shape (getLogNormalDistribution (Fin 100) (Fin 100)) = Fin 0"
  using getLogNormalDistribution_unchecked [of "- 1" 1]
    getLogNormalDistribution_unchecked [of 0 1]
    getLogNormalDistribution_unchecked [of 100 "- 5"]
  by simp

text \<open>For median 100 and falloff 50 the call produces parameters.\<close>

theorem getLogNormalDistribution_counterexample:
  "getLogNormalDistribution (Fin 100) (Fin 50) =
     \<lparr>location = Fin (ln 100),
      shape = Fin (0.5 * sqrt (1 - 3 * ln (1 / 2) - sqrt ((ln (1 / 2) - 3) * (ln (1 / 2) - 3) - 8)))\<rparr>"
proof -
  have l: "ln (1 / 2 :: real) \<le> 0" by simp
  from inner_radicand_pos [OF l] outer_radicand_nonneg [OF l]
  show ?thesis
    using getLogNormalDistribution_pos [of 100 50] by (simp add: js_sub_def)
qed

section \<open>The claims about the window sampler\<close>

text \<open>
  C6, as amended.  \<open>getRiskToResponsiveness\<close> sorts both of its array arguments in
  place.  After the call \<open>trace.traceEvents\<close> holds the same events in ascending order of
  \<open>ts\<close>, and is unchanged if it was in that order already; the percentiles array is
  either untouched (the call failed before reaching it) or sorted ascending, and it is
  sorted whenever the call returns.  \<open>_riskPercentiles\<close> assigns to no element of its
  arguments, which is why its model returns only a result; and the result of either
  function is a function of the arguments.
\<close>

theorem getRiskToResponsiveness_sorts_in_place:
  "mset (traceEvents_after (getRiskToResponsiveness tr st et ps)) = mset tr \<and>
   sorted (map ts (traceEvents_after (getRiskToResponsiveness tr st et ps))) \<and>
   (sorted (map ts tr) \<longrightarrow> traceEvents_after (getRiskToResponsiveness tr st et ps) = tr) \<and>
   (percentiles_after (getRiskToResponsiveness tr st et ps) = ps \<or>
    percentiles_after (getRiskToResponsiveness tr st et ps) = map_option sort ps) \<and>
   (\<forall>rs. returned (getRiskToResponsiveness tr st et ps) = Inr rs \<longrightarrow>
      percentiles_after (getRiskToResponsiveness tr st et ps) = map_option sort ps)"
  using percentiles_after_cases [of tr st et ps] returned_Inr [of tr st et ps]
  by (simp add: traceEvents_after_eq sort_key_id_if_sorted)

text \<open>An instance: a trace already in order is left as it was, the percentiles are sorted.\<close>

theorem getRiskToResponsiveness_sorts_in_place_witness:
  "traceEvents_after (getRiskToResponsiveness
     [\<lparr>name = ''TracingStartedInPage'', pid = 1, tid = 1, ts = 1000, dur = None\<rparr>,
      \<lparr>name = ''MessageLoop::RunTask'', pid = 1, tid = 1, ts = 2000, dur = Some 5000\<rparr>]
     None None (Some [1, 0.5])) =
     [\<lparr>name = ''TracingStartedInPage'', pid = 1, tid = 1, ts = 1000, dur = None\<rparr>,
      \<lparr>name = ''MessageLoop::RunTask'', pid = 1, tid = 1, ts = 2000, dur = Some 5000\<rparr>] \<and>
   percentiles_after (getRiskToResponsiveness
     [\<lparr>name = ''TracingStartedInPage'', pid = 1, tid = 1, ts = 1000, dur = None\<rparr>,
      \<lparr>name = ''MessageLoop::RunTask'', pid = 1, tid = 1, ts = 2000, dur = Some 5000\<rparr>]
     None None (Some [1, 0.5])) = Some [0.5, 1]"
proof -
  let ?tr = "[\<lparr>name = ''TracingStartedInPage'', pid = 1, tid = 1, ts = 1000, dur = None\<rparr>,
      \<lparr>name = ''MessageLoop::RunTask'', pid = 1, tid = 1, ts = 2000, dur = Some 5000\<rparr>]"
  have "\<exists>rs. returned (getRiskToResponsiveness ?tr None None (Some [1, 0.5])) = Inr rs"
    by (rule returned_ok) simp_all
  moreover have "sorted (map ts ?tr)" by simp
  ultimately show ?thesis
    using getRiskToResponsiveness_sorts_in_place [of ?tr None None "Some [1, 0.5]"]
    by auto
qed

text \<open>A trace out of order and percentiles out of order are both reordered by the call.\<close>

theorem getRiskToResponsiveness_mutates_counterexample:
  "traceEvents_after (getRiskToResponsiveness
     [\<lparr>name = ''MessageLoop::RunTask'', pid = 1, tid = 1, ts = 2000, dur = Some 5000\<rparr>,
      \<lparr>name = ''TracingStartedInPage'', pid = 1, tid = 1, ts = 1000, dur = None\<rparr>]
     None None (Some [1, 0.5])) =
     [\<lparr>name = ''TracingStartedInPage'', pid = 1, tid = 1, ts = 1000, dur = None\<rparr>,
      \<lparr>name = ''MessageLoop::RunTask'', pid = 1, tid = 1, ts = 2000, dur = Some 5000\<rparr>] \<and>
   percentiles_after (getRiskToResponsiveness
     [\<lparr>name = ''MessageLoop::RunTask'', pid = 1, tid = 1, ts = 2000, dur = Some 5000\<rparr>,
      \<lparr>name = ''TracingStartedInPage'', pid = 1, tid = 1, ts = 1000, dur = None\<rparr>]
     None None (Some [1, 0.5])) = Some [0.5, 1]"
  by (simp add: getRiskToResponsiveness_def Let_def)

text \<open>
  C7, as amended.  A task that starts before the window and ends inside it contributes
  \<open>eventEnd - startTime\<close>; for a task spanning \<open>[startTime - 10, startTime + 40]\<close> in the
  window \<open>[startTime, startTime + 100]\<close> that is 40 ms (not 30 ms, and not the 50 ms of
  the whole task).
\<close>

theorem sample_task_front_clip:
  "(eventStart tsBase event < startTime \<and> startTime < eventEnd tsBase event \<and>
      eventEnd tsBase event \<le> endTime \<longrightarrow>
      sample_task startTime endTime tsBase (durs, clipped) event =
        (durs @ [eventEnd tsBase event - startTime], clipped)) \<and>
   (eventStart tsBase event = startTime - 10 \<and> eventEnd tsBase event = startTime + 40 \<longrightarrow>
      sample_task startTime (startTime + 100) tsBase (durs, clipped) event =
        (durs @ [40], clipped))"
proof (intro conjI impI)
  assume a: "eventStart tsBase event < startTime \<and> startTime < eventEnd tsBase event \<and>
      eventEnd tsBase event \<le> endTime"
  then have "\<not> (eventEnd tsBase event \<le> startTime \<or> eventStart tsBase event \<ge> endTime)"
    by auto
  with a show "sample_task startTime endTime tsBase (durs, clipped) event =
        (durs @ [eventEnd tsBase event - startTime], clipped)"
    by (simp add: sample_task_def Let_def)
next
  assume b: "eventStart tsBase event = startTime - 10 \<and> eventEnd tsBase event = startTime + 40"
  then have "\<not> (eventEnd tsBase event \<le> startTime \<or>
      eventStart tsBase event \<ge> startTime + 100)"
    by auto
  with b show "sample_task startTime (startTime + 100) tsBase (durs, clipped) event =
        (durs @ [40], clipped)"
    by (simp add: sample_task_def Let_def)
qed

text \<open>An instance with \<open>startTime = 100\<close> and \<open>tsBase = 1000\<close>.\<close>

theorem sample_task_front_clip_witness:
  "sample_task 100 200 1000 ([7], 0)
     \<lparr>name = ''MessageLoop::RunTask'', pid = 1, tid = 1, ts = 91000, dur = Some 50000\<rparr>
   = ([7, 40], 0)"
  using sample_task_front_clip [of 1000
      "\<lparr>name = ''MessageLoop::RunTask'', pid = 1, tid = 1, ts = 91000, dur = Some 50000\<rparr>"
      100 200 "[7]" 0]
  by (simp add: eventEnd_def eventStart_def eventDuration_def)

text \<open>The same task, sampled into an empty list: the contribution is 40, not 30.\<close>

theorem sample_task_front_clip_counterexample:
  "eventStart 1000 \<lparr>name = ''MessageLoop::RunTask'', pid = 1, tid = 1, ts = 91000, dur = Some 50000\<rparr> = 100 - 10 \<and>
   eventEnd 1000 \<lparr>name = ''MessageLoop::RunTask'', pid = 1, tid = 1, ts = 91000, dur = Some 50000\<rparr> = 100 + 40 \<and>
   fst (sample_task 100 (100 + 100) 1000 ([], 0)
     \<lparr>name = ''MessageLoop::RunTask'', pid = 1, tid = 1, ts = 91000, dur = Some 50000\<rparr>) = [40] \<and>
   fst (sample_task 100 (100 + 100) 1000 ([], 0)
     \<lparr>name = ''MessageLoop::RunTask'', pid = 1, tid = 1, ts = 91000, dur = Some 50000\<rparr>) \<noteq> [30]"
  by (simp add: sample_task_def eventEnd_def eventStart_def eventDuration_def Let_def)

text \<open>
  C8.  The clipped length handed to the estimator is the part beyond the window's end of
  the last task that overlaps the window and ends after it, whatever the tasks
  processed before it were: an earlier overhang is overwritten, not added.
\<close>

theorem clippedLength_last_write_wins:
  assumes "startTime < eventEnd tsBase event" and "eventStart tsBase event < endTime"
    and "endTime < eventEnd tsBase event"
    and "\<forall>x\<in>set later. \<not> (startTime < eventEnd tsBase x \<and> eventStart tsBase x < endTime \<and>
              endTime < eventEnd tsBase x)"
  shows "snd (sample_window startTime endTime tsBase (earlier @ event # later)) =
           eventEnd tsBase event - endTime"
  using assms
  by (simp add: sample_window_def foldl_sample_task_skip sample_task_clip)

text \<open>
  An instance: in the window \<open>[0, 100]\<close> a task ending at 150 is followed by one ending at
  120 and one ending inside the window; the clipped length is 20, not 50 and not 70.
\<close>

theorem clippedLength_last_write_wins_witness:
  "snd (sample_window 0 100 1000
     ([\<lparr>name = ''MessageLoop::RunTask'', pid = 1, tid = 1, ts = 51000, dur = Some 100000\<rparr>] @
      \<lparr>name = ''MessageLoop::RunTask'', pid = 1, tid = 1, ts = 91000, dur = Some 30000\<rparr> #
      [\<lparr>name = ''MessageLoop::RunTask'', pid = 1, tid = 1, ts = 95000, dur = Some 1000\<rparr>])) = 20"
  using clippedLength_last_write_wins [of 0 1000
      "\<lparr>name = ''MessageLoop::RunTask'', pid = 1, tid = 1, ts = 91000, dur = Some 30000\<rparr>" 100
      "[\<lparr>name = ''MessageLoop::RunTask'', pid = 1, tid = 1, ts = 95000, dur = Some 1000\<rparr>]"
      "[\<lparr>name = ''MessageLoop::RunTask'', pid = 1, tid = 1, ts = 51000, dur = Some 100000\<rparr>]"]
  by (simp add: eventEnd_def eventStart_def eventDuration_def)

text \<open>
  C9, as amended.  \<open>getRiskToResponsiveness\<close> does not compare \<open>startTime\<close> with
  \<open>endTime\<close>.  With \<open>startTime \<ge> endTime\<close> it returns a result, one entry per percentile,
  as soon as the trace has an event with a non-zero timestamp and a
  \<open>TracingStartedInPage\<close> event, which are its only two ways to fail.
\<close>

theorem getRiskToResponsiveness_window_unchecked:
  assumes "endTime \<le> startTime"
    and "\<exists>e\<in>set tr. ts e \<noteq> 0" and "\<exists>e\<in>set tr. name e = ''TracingStartedInPage''"
  shows "\<exists>rs. returned (getRiskToResponsiveness tr (Some startTime) (Some endTime) ps) = Inr rs \<and>
           map percentile rs = (case ps of None \<Rightarrow> default_percentiles | Some qs \<Rightarrow> sort qs)"
  using returned_ok [OF assms(2,3)] returned_Inr by blast

text \<open>An instance with \<open>startTime = endTime = 7\<close>.\<close>

theorem getRiskToResponsiveness_window_unchecked_witness:
  "\<exists>rs. returned (getRiskToResponsiveness
     [\<lparr>name = ''TracingStartedInPage'', pid = 1, tid = 1, ts = 1000, dur = None\<rparr>,
      \<lparr>name = ''MessageLoop::RunTask'', pid = 1, tid = 1, ts = 2000, dur = Some 5000\<rparr>]
     (Some 7) (Some 7) None) = Inr rs \<and>
     map percentile rs = [0.5, 0.75, 0.9, 0.99, 1]"
  using getRiskToResponsiveness_window_unchecked [of 7 7
     "[\<lparr>name = ''TracingStartedInPage'', pid = 1, tid = 1, ts = 1000, dur = None\<rparr>,
      \<lparr>name = ''MessageLoop::RunTask'', pid = 1, tid = 1, ts = 2000, dur = Some 5000\<rparr>]" None]
  by (simp add: default_percentiles_def)

text \<open>With \<open>startTime = 10\<close> and \<open>endTime = 5\<close> the call returns two latencies.\<close>

theorem getRiskToResponsiveness_window_counterexample:
  "returned (getRiskToResponsiveness
     [\<lparr>name = ''TracingStartedInPage'', pid = 1, tid = 1, ts = 1000, dur = None\<rparr>,
      \<lparr>name = ''MessageLoop::RunTask'', pid = 1, tid = 1, ts = 2000, dur = Some 5000\<rparr>,
      \<lparr>name = ''MessageLoop::RunTask'', pid = 1, tid = 1, ts = 101000, dur = None\<rparr>]
     (Some 10) (Some 5) (Some [0.5, 1])) =
   Inr [\<lparr>percentile = 0.5, time = Fin 18.5\<rparr>, \<lparr>percentile = 1, time = Fin 16\<rparr>]"
  by code_simp

text \<open>
  C10.  Without a percentiles argument the result is the one for
  \<open>[0.5, 0.75, 0.9, 0.99, 1]\<close>, and its entries carry these percentiles.  With a
  percentiles argument the result is the one for the argument sorted ascending, and
  its entries carry the sorted percentiles.
\<close>

theorem getRiskToResponsiveness_percentiles:
  "returned (getRiskToResponsiveness tr st et None) =
     returned (getRiskToResponsiveness tr st et (Some [0.5, 0.75, 0.9, 0.99, 1])) \<and>
   returned (getRiskToResponsiveness tr st et (Some ps)) =
     returned (getRiskToResponsiveness tr st et (Some (sort ps))) \<and>
   (\<forall>rs. returned (getRiskToResponsiveness tr st et None) = Inr rs \<longrightarrow>
      map percentile rs = [0.5, 0.75, 0.9, 0.99, 1]) \<and>
   (\<forall>rs. returned (getRiskToResponsiveness tr st et (Some ps)) = Inr rs \<longrightarrow>
      map percentile rs = sort ps \<and> sorted (map percentile rs))"
proof (intro conjI allI impI)
  show "returned (getRiskToResponsiveness tr st et None) =
     returned (getRiskToResponsiveness tr st et (Some [0.5, 0.75, 0.9, 0.99, 1]))"
    by (intro returned_cong) (simp add: default_percentiles_def)
  show "returned (getRiskToResponsiveness tr st et (Some ps)) =
     returned (getRiskToResponsiveness tr st et (Some (sort ps)))"
    by (intro returned_cong) (simp add: sorted_sort_id)
next
  fix rs assume "returned (getRiskToResponsiveness tr st et None) = Inr rs"
  from returned_Inr [OF this] show "map percentile rs = [0.5, 0.75, 0.9, 0.99, 1]"
    by (simp add: default_percentiles_def)
next
  fix rs assume "returned (getRiskToResponsiveness tr st et (Some ps)) = Inr rs"
  from returned_Inr [OF this] show "map percentile rs = sort ps" by simp
  then show "sorted (map percentile rs)" by simp
qed

text \<open>
  An instance: a 5 ms task in a 100 ms window, first without percentiles, then with
  \<open>[1, 0.99]\<close>.
\<close>

theorem getRiskToResponsiveness_percentiles_witness:
  "returned (getRiskToResponsiveness
     [\<lparr>name = ''TracingStartedInPage'', pid = 1, tid = 1, ts = 1000, dur = None\<rparr>,
      \<lparr>name = ''MessageLoop::RunTask'', pid = 1, tid = 1, ts = 2000, dur = Some 5000\<rparr>,
      \<lparr>name = ''MessageLoop::RunTask'', pid = 1, tid = 1, ts = 101000, dur = None\<rparr>]
     None None None) =
   Inr [\<lparr>percentile = 0.5, time = Fin 16\<rparr>, \<lparr>percentile = 0.75, time = Fin 16\<rparr>,
        \<lparr>percentile = 0.9, time = Fin 16\<rparr>, \<lparr>percentile = 0.99, time = Fin 20\<rparr>,
        \<lparr>percentile = 1, time = Fin 21\<rparr>] \<and>
   returned (getRiskToResponsiveness
     [\<lparr>name = ''TracingStartedInPage'', pid = 1, tid = 1, ts = 1000, dur = None\<rparr>,
      \<lparr>name = ''MessageLoop::RunTask'', pid = 1, tid = 1, ts = 2000, dur = Some 5000\<rparr>,
      \<lparr>name = ''MessageLoop::RunTask'', pid = 1, tid = 1, ts = 101000, dur = None\<rparr>]
     None None (Some [1, 0.99])) =
   Inr [\<lparr>percentile = 0.99, time = Fin 20\<rparr>, \<lparr>percentile = 1, time = Fin 21\<rparr>]"
proof -
  let ?tr = "[\<lparr>name = ''TracingStartedInPage'', pid = 1, tid = 1, ts = 1000, dur = None\<rparr>,
      \<lparr>name = ''MessageLoop::RunTask'', pid = 1, tid = 1, ts = 2000, dur = Some 5000\<rparr>,
      \<lparr>name = ''MessageLoop::RunTask'', pid = 1, tid = 1, ts = 101000, dur = None\<rparr>]"
  have a: "returned (getRiskToResponsiveness ?tr None None (Some [0.5, 0.75, 0.9, 0.99, 1])) =
     Inr [\<lparr>percentile = 0.5, time = Fin 16\<rparr>, \<lparr>percentile = 0.75, time = Fin 16\<rparr>,
        \<lparr>percentile = 0.9, time = Fin 16\<rparr>, \<lparr>percentile = 0.99, time = Fin 20\<rparr>,
        \<lparr>percentile = 1, time = Fin 21\<rparr>]"
    by code_simp
  have b: "returned (getRiskToResponsiveness ?tr None None (Some [0.99, 1])) =
     Inr [\<lparr>percentile = 0.99, time = Fin 20\<rparr>, \<lparr>percentile = 1, time = Fin 21\<rparr>]"
    by code_simp
  have c: "sort [1, 0.99::real] = [0.99, 1]" by simp
  from a b c getRiskToResponsiveness_percentiles [of ?tr None None "[1, 0.99]"]
  show ?thesis by simp
qed

end
